theory Spec2Isabelle
  imports Complex_Main
begin

section \<open>Data model of the bill splitter (main.go)\<close>

text \<open>
  The amounts of a bill are \<open>float64\<close> numbers read from JSON, which are finite; they
  are modelled by their values in \<open>real\<close>. The balances and the transfers that
  \<open>calculate\<close> computes from them are \<open>float64\<close> too, and these can overflow, so they
  are values of the type \<open>float64\<close> below: a finite number, an infinity or a NaN.
  Go's \<open>int\<close> identifiers are only used as map keys and are modelled as \<open>int\<close>. A nil
  slice and an empty slice are both the empty list.
\<close>

datatype float64 = Finite real | PosInf | NegInf | NaN

record Person =
  ID :: int
  Name :: string

record Bill =
  ID :: int
  Title :: string
  Amount :: real
  Category :: string
  Currency :: string
  AmountBase :: real
  PaidBy :: int
  Participants :: "int list"

record Settlement =
  From :: string
  To :: string
  Amount :: float64

section \<open>float64 arithmetic\<close>

text \<open>
  IEEE 754 binary64 with rounding to nearest, ties to even. \<open>maxFloat\<close> is the largest
  finite number. A number other than zero is rounded to the nearest multiple of the unit
  in the last place of its binade (\<open>ulp\<close>, with the exponent of the subnormal numbers
  as the least one); a result beyond \<open>maxFloat\<close> is an infinity. The sign of a zero is
  not modelled: no operation of the program tells the two zeros apart.
\<close>

definition maxFloat :: real where
  "maxFloat = (2 ^ 53 - 1) * 2 ^ 971"

definition expo :: "real \<Rightarrow> int" where
  "expo x = max \<lfloor>log 2 \<bar>x\<bar>\<rfloor> (- 1022)"

definition ulp :: "real \<Rightarrow> real" where
  "ulp x = 2 powr (real_of_int (expo x) - 52)"

definition nearestEven :: "real \<Rightarrow> int" where
  "nearestEven z =
     (let f = \<lfloor>z\<rfloor> in
      if z - of_int f < 1 / 2 then f
      else if 1 / 2 < z - of_int f then f + 1
      else if even f then f else f + 1)"

definition ieeeRound :: "real \<Rightarrow> float64" where
  "ieeeRound x =
     (if x = 0 then Finite 0
      else
        let y = of_int (nearestEven (x / ulp x)) * ulp x in
        if maxFloat < y then PosInf
        else if y < - maxFloat then NegInf
        else Finite y)"

fun fneg :: "float64 \<Rightarrow> float64" where
  "fneg (Finite x) = Finite (- x)"
| "fneg PosInf = NegInf"
| "fneg NegInf = PosInf"
| "fneg NaN = NaN"

fun fadd :: "float64 \<Rightarrow> float64 \<Rightarrow> float64" where
  "fadd (Finite x) (Finite y) = ieeeRound (x + y)"
| "fadd (Finite x) PosInf = PosInf"
| "fadd (Finite x) NegInf = NegInf"
| "fadd PosInf (Finite y) = PosInf"
| "fadd PosInf PosInf = PosInf"
| "fadd PosInf NegInf = NaN"
| "fadd NegInf (Finite y) = NegInf"
| "fadd NegInf PosInf = NaN"
| "fadd NegInf NegInf = NegInf"
| "fadd NaN b = NaN"
| "fadd a NaN = NaN"

definition fsub :: "float64 \<Rightarrow> float64 \<Rightarrow> float64" where
  "fsub a b = fadd a (fneg b)"

text \<open>
  \<open>a / float64(n)\<close> for a length \<open>n\<close> that is not zero; the conversion of a length
  is exact.
\<close>

fun fdivn :: "float64 \<Rightarrow> nat \<Rightarrow> float64" where
  "fdivn (Finite x) n = ieeeRound (x / real n)"
| "fdivn PosInf n = PosInf"
| "fdivn NegInf n = NegInf"
| "fdivn NaN n = NaN"

text \<open>\<open>a < b\<close>; a comparison with a NaN is false.\<close>

fun flt :: "float64 \<Rightarrow> float64 \<Rightarrow> bool" where
  "flt (Finite x) (Finite y) \<longleftrightarrow> x < y"
| "flt (Finite x) PosInf \<longleftrightarrow> True"
| "flt NegInf (Finite y) \<longleftrightarrow> True"
| "flt NegInf PosInf \<longleftrightarrow> True"
| "flt a b \<longleftrightarrow> False"

text \<open>The constant \<open>0.01\<close> of the program: the \<open>float64\<close> nearest to 1/100.\<close>

definition cent :: real where
  "cent = 5764607523034235 / 2 ^ 59"

section \<open>calculate\<close>

text \<open>Reading a Go map at a key that is absent gives the zero value.\<close>

definition balanceAt64 :: "(int \<rightharpoonup> float64) \<Rightarrow> int \<Rightarrow> float64" where
  "balanceAt64 balance k = (case balance k of None \<Rightarrow> Finite 0 | Some v \<Rightarrow> v)"

definition nameAt :: "(int \<rightharpoonup> string) \<Rightarrow> int \<Rightarrow> string" where
  "nameAt nameMap k = (case nameMap k of None \<Rightarrow> [] | Some n \<Rightarrow> n)"

text \<open>The initialisation loop: \<open>balance[person.ID] = 0; nameMap[person.ID] = person.Name\<close>.\<close>

fun initMaps64 :: "(int \<rightharpoonup> float64) \<times> (int \<rightharpoonup> string) \<Rightarrow> Person list
    \<Rightarrow> (int \<rightharpoonup> float64) \<times> (int \<rightharpoonup> string)" where
  "initMaps64 (balance, nameMap) [] = (balance, nameMap)"
| "initMaps64 (balance, nameMap) (person # people) =
     initMaps64 (balance(Person.ID person \<mapsto> Finite 0),
                 nameMap(Person.ID person \<mapsto> Name person)) people"

text \<open>The inner loop over the participants: \<open>balance[participantID] -= perPerson\<close>.\<close>

fun debitParticipants64 :: "(int \<rightharpoonup> float64) \<Rightarrow> float64 \<Rightarrow> int list \<Rightarrow> (int \<rightharpoonup> float64)" where
  "debitParticipants64 balance perPerson [] = balance"
| "debitParticipants64 balance perPerson (participantID # rest) =
     debitParticipants64
       (balance(participantID \<mapsto> fsub (balanceAt64 balance participantID) perPerson))
       perPerson rest"

text \<open>One iteration of the loop over the bills.\<close>

definition applyBill64 :: "(int \<rightharpoonup> float64) \<Rightarrow> Bill \<Rightarrow> (int \<rightharpoonup> float64)" where
  "applyBill64 balance bill =
     (if length (Participants bill) = 0 then balance
      else
        let amount = Finite (if AmountBase bill = 0 then Bill.Amount bill else AmountBase bill);
            perPerson = fdivn amount (length (Participants bill));
            balance1 = balance(PaidBy bill \<mapsto> fadd (balanceAt64 balance (PaidBy bill)) amount)
        in debitParticipants64 balance1 perPerson (Participants bill))"

fun applyBills64 :: "(int \<rightharpoonup> float64) \<Rightarrow> Bill list \<Rightarrow> (int \<rightharpoonup> float64)" where
  "applyBills64 balance [] = balance"
| "applyBills64 balance (bill # bills) = applyBills64 (applyBill64 balance bill) bills"

text \<open>The balances after both loops, and the name lookup table.\<close>

definition balances64 :: "Person list \<Rightarrow> Bill list \<Rightarrow> (int \<rightharpoonup> float64)" where
  "balances64 people bills = applyBills64 (fst (initMaps64 (Map.empty, Map.empty) people)) bills"

definition names :: "Person list \<Rightarrow> (int \<rightharpoonup> string)" where
  "names people = snd (initMaps64 (Map.empty, Map.empty) people)"

text \<open>
  The partition loop \<open>for id, amt := range balance\<close>. Go leaves the order in which a
  map is ranged over unspecified; the model takes that order as the list \<open>order\<close> of the
  keys visited. An anonymous struct \<open>{id, amount}\<close> is a pair. A key of \<open>order\<close>
  that the map does not hold is passed over (a range never yields one).
\<close>

type_synonym party = "int \<times> float64"

fun partitionBalances :: "(int \<rightharpoonup> float64) \<Rightarrow> party list \<times> party list \<Rightarrow> int list
    \<Rightarrow> party list \<times> party list" where
  "partitionBalances balance (creditors, debtors) [] = (creditors, debtors)"
| "partitionBalances balance (creditors, debtors) (k # rest) =
     (case balance k of
        None \<Rightarrow> partitionBalances balance (creditors, debtors) rest
      | Some amt \<Rightarrow>
          if flt (Finite cent) amt then
            partitionBalances balance (creditors @ [(k, amt)], debtors) rest
          else if flt amt (Finite (- cent)) then
            partitionBalances balance (creditors, debtors @ [(k, fneg amt)]) rest
          else partitionBalances balance (creditors, debtors) rest)"


text \<open>
  The state of the greedy matching loop. The field \<open>moves\<close> is not a variable of the
  program: it records, for every settlement appended, the identifiers of the debtor and
  of the creditor whose names the settlement carries.
\<close>

record matching =
  creditors :: "party list"
  debtors :: "party list"
  i :: nat
  j :: nat
  settlements :: "Settlement list"
  moves :: "(int \<times> int \<times> float64) list"

definition matchCond :: "matching \<Rightarrow> bool" where
  "matchCond s \<longleftrightarrow> i s < length (creditors s) \<and> j s < length (debtors s)"

text \<open>The body of the loop \<open>for i < len(creditors) && j < len(debtors)\<close>.\<close>

definition matchStep :: "(int \<rightharpoonup> string) \<Rightarrow> matching \<Rightarrow> matching" where
  "matchStep nameMap s =
     (let creditor = creditors s ! i s;
          debtor = debtors s ! j s;
          amount = (if flt (snd debtor) (snd creditor) then snd debtor else snd creditor);
          settlements1 = settlements s @
            [\<lparr>From = nameAt nameMap (fst debtor), To = nameAt nameMap (fst creditor),
              Amount = amount\<rparr>];
          moves1 = moves s @ [(fst debtor, fst creditor, amount)];
          creditors1 = (creditors s)[i s := (fst creditor, fsub (snd creditor) amount)];
          debtors1 = (debtors s)[j s := (fst debtor, fsub (snd debtor) amount)];
          i1 = (if flt (snd (creditors1 ! i s)) (Finite cent) then i s + 1 else i s);
          j1 = (if flt (snd (debtors1 ! j s)) (Finite cent) then j s + 1 else j s)
      in \<lparr>creditors = creditors1, debtors = debtors1, i = i1, j = j1,
          settlements = settlements1, moves = moves1\<rparr>)"

text \<open>
  The loop may run for ever (when both remainders are infinite or NaN, no index moves):
  it is a partial function, and \<open>None\<close> stands for a loop that does not return.
\<close>

partial_function (option) matchLoop :: "(int \<rightharpoonup> string) \<Rightarrow> matching \<Rightarrow> matching option" where
  "matchLoop nameMap s =
     (if matchCond s then matchLoop nameMap (matchStep nameMap s) else Some s)"

definition calculate :: "int list \<Rightarrow> Person list \<Rightarrow> Bill list \<Rightarrow> Settlement list option" where
  "calculate order people bills =
     (let (balance0, nameMap) = initMaps64 (Map.empty, Map.empty) people;
          balance = applyBills64 balance0 bills;
          (creditors0, debtors0) = partitionBalances balance ([], []) order
      in map_option settlements (matchLoop nameMap
           \<lparr>creditors = creditors0, debtors = debtors0, i = 0, j = 0, settlements = [],
            moves = []\<rparr>))"

section \<open>The balances in exact arithmetic\<close>

text \<open>
  The first two loops of \<open>calculate\<close> once more, with the amounts and the balances read
  as real numbers: no operation rounds or overflows.
\<close>

definition balanceAt :: "(int \<rightharpoonup> real) \<Rightarrow> int \<Rightarrow> real" where
  "balanceAt balance k = (case balance k of None \<Rightarrow> 0 | Some v \<Rightarrow> v)"

fun initMaps :: "(int \<rightharpoonup> real) \<times> (int \<rightharpoonup> string) \<Rightarrow> Person list
    \<Rightarrow> (int \<rightharpoonup> real) \<times> (int \<rightharpoonup> string)" where
  "initMaps (balance, nameMap) [] = (balance, nameMap)"
| "initMaps (balance, nameMap) (person # people) =
     initMaps (balance(Person.ID person \<mapsto> 0), nameMap(Person.ID person \<mapsto> Name person)) people"

fun debitParticipants :: "(int \<rightharpoonup> real) \<Rightarrow> real \<Rightarrow> int list \<Rightarrow> (int \<rightharpoonup> real)" where
  "debitParticipants balance perPerson [] = balance"
| "debitParticipants balance perPerson (participantID # rest) =
     debitParticipants (balance(participantID \<mapsto> balanceAt balance participantID - perPerson))
       perPerson rest"

definition applyBill :: "(int \<rightharpoonup> real) \<Rightarrow> Bill \<Rightarrow> (int \<rightharpoonup> real)" where
  "applyBill balance bill =
     (if length (Participants bill) = 0 then balance
      else
        let amount = (if AmountBase bill = 0 then Bill.Amount bill else AmountBase bill);
            perPerson = amount / real (length (Participants bill));
            balance1 = balance(PaidBy bill \<mapsto> balanceAt balance (PaidBy bill) + amount)
        in debitParticipants balance1 perPerson (Participants bill))"

fun applyBills :: "(int \<rightharpoonup> real) \<Rightarrow> Bill list \<Rightarrow> (int \<rightharpoonup> real)" where
  "applyBills balance [] = balance"
| "applyBills balance (bill # bills) = applyBills (applyBill balance bill) bills"

definition balances :: "Person list \<Rightarrow> Bill list \<Rightarrow> (int \<rightharpoonup> real)" where
  "balances people bills = applyBills (fst (initMaps (Map.empty, Map.empty) people)) bills"

section \<open>Strings\<close>

text \<open>
  Go strings are byte sequences. The functions \<open>strings.ToLower\<close>, \<open>strings.ToUpper\<close>
  and \<open>strings.TrimSpace\<close> of Go's library, which map and trim by Unicode, are taken
  as given: the program is modelled over any three such functions.
\<close>

record strings =
  ToLower :: "string \<Rightarrow> string"
  ToUpper :: "string \<Rightarrow> string"
  TrimSpace :: "string \<Rightarrow> string"

text \<open>
  What the three functions do on strings of ASCII bytes: the letters \<open>A\<close> to \<open>Z\<close> and
  \<open>a\<close> to \<open>z\<close> are mapped to each other, and the white space is tab, line feed,
  vertical tab, form feed, carriage return and space.
\<close>

definition upperLetters :: string where
  "upperLetters = ''ABCDEFGHIJKLMNOPQRSTUVWXYZ''"

definition lowerLetters :: string where
  "lowerLetters = ''abcdefghijklmnopqrstuvwxyz''"

definition toLowerChar :: "char \<Rightarrow> char" where
  "toLowerChar c = (case map_of (zip upperLetters lowerLetters) c of None \<Rightarrow> c | Some d \<Rightarrow> d)"

definition toUpperChar :: "char \<Rightarrow> char" where
  "toUpperChar c = (case map_of (zip lowerLetters upperLetters) c of None \<Rightarrow> c | Some d \<Rightarrow> d)"

definition isSpace :: "char \<Rightarrow> bool" where
  "isSpace c \<longleftrightarrow> c \<in> set [CHR 0x09, CHR 0x0A, CHR 0x0B, CHR 0x0C, CHR 0x0D, CHR '' '']"

definition asciiStrings :: strings where
  "asciiStrings =
     \<lparr>ToLower = map toLowerChar,
      ToUpper = map toUpperChar,
      TrimSpace = (\<lambda>s. rev (dropWhile isSpace (rev (dropWhile isSpace s))))\<rparr>"

section \<open>Rate tables, the cache and getRates\<close>

text \<open>
  Errors are values. \<open>FetchError\<close> stands for whatever \<open>fetchRates\<close> reports,
  \<open>DecodeError\<close> for a failure of \<open>json.Unmarshal\<close>, \<open>MissingBaseRates\<close> for the
  error of \<open>parseRateResponse\<close> when the base currency's key is absent, and
  \<open>MissingRate cur base\<close> for the error of \<open>convertBillsToBase\<close>, whose message is
  formatted from the upper-cased currency code and the upper-cased base.
\<close>

datatype error =
    FetchError string
  | DecodeError string
  | MissingBaseRates
  | MissingRate string string

text \<open>A \<open>time.Time\<close> is a number of nanoseconds, a \<open>time.Duration\<close> likewise.\<close>

record rateEntry =
  Rates :: "string \<rightharpoonup> real"
  Date :: string
  FetchedAt :: int

text \<open>The zero value \<open>rateEntry{}\<close>.\<close>

definition zeroEntry :: rateEntry where
  "zeroEntry = \<lparr>Rates = Map.empty, Date = [], FetchedAt = 0\<rparr>"

definition rateCacheTTL :: int where
  "rateCacheTTL = 30 * (60 * 1000000000)"

text \<open>\<open>t.Sub(u)\<close>: the difference, saturated to the range of a 64-bit duration.\<close>

definition Sub :: "int \<Rightarrow> int \<Rightarrow> int" where
  "Sub t u = max (- (2 ^ 63)) (min (2 ^ 63 - 1) (t - u))"

text \<open>
  The decoders of \<open>encoding/json\<close> that \<open>parseRateResponse\<close> calls, taken as given:
  \<open>unmarshalObject\<close> is \<open>json.Unmarshal\<close> into a \<open>map[string]json.RawMessage\<close>,
  \<open>unmarshalString\<close> into a \<open>string\<close>, and \<open>unmarshalRates\<close> into the freshly made
  \<open>map[string]float64\<close>. The last one gives \<open>None\<close> when it leaves the map nil, as
  it does on the JSON value \<open>null\<close>.
\<close>

record decoder =
  unmarshalObject :: "string \<Rightarrow> error + (string \<rightharpoonup> string)"
  unmarshalString :: "string \<Rightarrow> error + string"
  unmarshalRates :: "string \<Rightarrow> error + (string \<rightharpoonup> real) option"

text \<open>A call either returns or panics.\<close>

datatype 'a outcome = Returned 'a | Panicked

text \<open>
  Go returns a pair of a value and an error; the pair is kept, with \<open>None\<close> for
  \<open>nil\<close>, because \<open>convertBillsToBase\<close> reads the value on the error path too. The
  assignment \<open>rates[baseKey] = 1\<close> panics on a nil map.
\<close>

definition parseRateResponse :: "strings \<Rightarrow> decoder \<Rightarrow> string \<Rightarrow> string
    \<Rightarrow> (rateEntry \<times> error option) outcome" where
  "parseRateResponse lib js base data =
     (case unmarshalObject js data of
        Inl err \<Rightarrow> Returned (zeroEntry, Some err)
      | Inr raw \<Rightarrow>
          (case (case raw ''date'' of None \<Rightarrow> Inr [] | Some v \<Rightarrow> unmarshalString js v) of
             Inl err \<Rightarrow> Returned (zeroEntry, Some err)
           | Inr date \<Rightarrow>
               let baseKey = ToLower lib base in
               (case raw baseKey of
                  None \<Rightarrow> Returned (zeroEntry, Some MissingBaseRates)
                | Some rateRaw \<Rightarrow>
                    (case unmarshalRates js rateRaw of
                       Inl err \<Rightarrow> Returned (zeroEntry, Some err)
                     | Inr None \<Rightarrow> Panicked
                     | Inr (Some rates) \<Rightarrow>
                         Returned
                           (\<lparr>Rates = rates(baseKey \<mapsto> 1), Date = date, FetchedAt = 0\<rparr>,
                            None)))))"

text \<open>
  The global \<open>rateCache\<close>, and a trace of the calls of \<open>fetchRates\<close> (the network
  effect of \<open>getRates\<close>): each call appends its argument.
\<close>

record world =
  rateCache :: "string \<rightharpoonup> rateEntry"
  fetched :: "string list"

text \<open>
  \<open>getRates\<close>. The call \<open>fetchRates(base)\<close> goes to the network; its outcome is the
  parameter \<open>fetch\<close>, and \<open>now\<close> is what \<open>time.Now()\<close> returns.
\<close>

definition getRates :: "(string \<Rightarrow> error + rateEntry) \<Rightarrow> int \<Rightarrow> world \<Rightarrow> string
    \<Rightarrow> (rateEntry \<times> error option) \<times> world" where
  "getRates fetch now w base =
     (case (case rateCache w base of
              None \<Rightarrow> None
            | Some entry \<Rightarrow> if Sub now (FetchedAt entry) < rateCacheTTL then Some entry else None) of
        Some entry \<Rightarrow> ((entry, None), w)
      | None \<Rightarrow>
          let w1 = w\<lparr>fetched := fetched w @ [base]\<rparr> in
          (case fetch base of
             Inl err \<Rightarrow>
               (case rateCache w1 base of
                  Some cached \<Rightarrow> ((cached, None), w1)
                | None \<Rightarrow> ((zeroEntry, Some err), w1))
           | Inr entry \<Rightarrow>
               ((entry, None), w1\<lparr>rateCache := (rateCache w1)(base \<mapsto> entry)\<rparr>)))"

section \<open>convertBillsToBase\<close>

text \<open>The currency a bill is resolved to (the first four lines of the loop body).\<close>

definition billCurrency :: "strings \<Rightarrow> string \<Rightarrow> Bill \<Rightarrow> string" where
  "billCurrency lib baseLower bill =
     (let cur = ToLower lib (TrimSpace lib (Currency bill))
      in if cur = [] then baseLower else cur)"

text \<open>
  The loop over the bills, with the slice \<open>converted\<close> built so far. A lookup
  \<open>rate, ok := rates.Rates[cur]\<close> of an absent key gives \<open>(0, false)\<close>. The
  rates are finite numbers read from JSON, and the quotient \<open>bill.Amount / rate\<close> is
  taken in exact arithmetic.
\<close>

fun convertLoop :: "strings \<Rightarrow> string \<Rightarrow> string \<Rightarrow> rateEntry \<Rightarrow> Bill list \<Rightarrow> Bill list
    \<Rightarrow> Bill list \<times> string \<times> error option" where
  "convertLoop lib base baseLower rates converted [] = (converted, Date rates, None)"
| "convertLoop lib base baseLower rates converted (bill # bills) =
     (let cur = billCurrency lib baseLower bill in
      if cur = baseLower then
        convertLoop lib base baseLower rates
          (converted @ [bill\<lparr>AmountBase := Bill.Amount bill\<rparr>]) bills
      else
        let (rate, ok) = (case Rates rates cur of None \<Rightarrow> (0, False) | Some r \<Rightarrow> (r, True)) in
        if \<not> ok \<or> rate = 0 then
          ([], Date rates, Some (MissingRate (ToUpper lib cur) (ToUpper lib base)))
        else
          convertLoop lib base baseLower rates
            (converted @ [bill\<lparr>AmountBase := Bill.Amount bill / rate\<rparr>]) bills)"

definition convertBillsToBase :: "strings \<Rightarrow> (string \<Rightarrow> error + rateEntry) \<Rightarrow> int \<Rightarrow> world
    \<Rightarrow> string \<Rightarrow> Bill list \<Rightarrow> (Bill list \<times> string \<times> error option) \<times> world" where
  "convertBillsToBase lib fetch now w base bills =
     (let baseLower = ToLower lib base;
          ((rates, err), w1) = getRates fetch now w baseLower
      in case err of
           Some e \<Rightarrow> (([], Date rates, Some e), w1)
         | None \<Rightarrow> (convertLoop lib base baseLower rates [] bills, w1))"

section \<open>Notions used to state the properties\<close>

text \<open>The sum of all balances held by the map.\<close>

definition total :: "(int \<rightharpoonup> real) \<Rightarrow> real" where
  "total balance = (\<Sum>k \<in> dom balance. balanceAt balance k)"

text \<open>
  The identifiers a calculation touches: the people, and the payer and participants of
  every bill that has a participant.
\<close>

definition billIds :: "Bill \<Rightarrow> int set" where
  "billIds bill =
     (if Participants bill = [] then {} else insert (PaidBy bill) (set (Participants bill)))"

definition affected :: "Person list \<Rightarrow> Bill list \<Rightarrow> int set" where
  "affected people bills = Person.ID ` set people \<union> (\<Union>bill \<in> set bills. billIds bill)"

text \<open>The initial state of the matching loop inside \<open>calculate\<close>.\<close>

definition matchStart :: "int list \<Rightarrow> Person list \<Rightarrow> Bill list \<Rightarrow> matching" where
  "matchStart order people bills =
     \<lparr>creditors = fst (partitionBalances (balances64 people bills) ([], []) order),
      debtors = snd (partitionBalances (balances64 people bills) ([], []) order),
      i = 0, j = 0, settlements = [], moves = []\<rparr>"





















text \<open>A rate read from the table, zero when the code is absent.\<close>

definition rateAt :: "rateEntry \<Rightarrow> string \<Rightarrow> real" where
  "rateAt rates cur = (case Rates rates cur of None \<Rightarrow> 0 | Some r \<Rightarrow> r)"

text \<open>
  A bill whose resolved currency is not the base and has no usable rate: the code is
  absent from the table or mapped to zero.
\<close>

definition missingRate :: "strings \<Rightarrow> string \<Rightarrow> rateEntry \<Rightarrow> Bill \<Rightarrow> bool" where
  "missingRate lib baseLower rates bill \<longleftrightarrow>
     billCurrency lib baseLower bill \<noteq> baseLower \<and>
     (Rates rates (billCurrency lib baseLower bill) = None \<or>
      Rates rates (billCurrency lib baseLower bill) = Some 0)"

definition baseAmount :: "strings \<Rightarrow> string \<Rightarrow> rateEntry \<Rightarrow> Bill \<Rightarrow> real" where
  "baseAmount lib baseLower rates bill =
     (if billCurrency lib baseLower bill = baseLower then Bill.Amount bill
      else Bill.Amount bill / rateAt rates (billCurrency lib baseLower bill))"

section \<open>Scenarios\<close>

text \<open>The people and bills of \<open>TestCalculate\<close>.\<close>

definition alice :: Person where
  "alice = \<lparr>Person.ID = 1, Name = ''Alice''\<rparr>"

definition bob :: Person where
  "bob = \<lparr>Person.ID = 2, Name = ''Bob''\<rparr>"

definition charlie :: Person where
  "charlie = \<lparr>Person.ID = 3, Name = ''Charlie''\<rparr>"

definition lunch :: Bill where
  "lunch = \<lparr>Bill.ID = 1, Title = ''Lunch'', Bill.Amount = 300, Category = [], Currency = [],
     AmountBase = 300, PaidBy = 1, Participants = [1, 2, 3]\<rparr>"

text \<open>
  A bill without participants; a bill of 3/128 (0.0234375) shared by three people; and
  a bill of \<open>2 ^ 1023\<close>, about 9e307, that Alice pays for Bob.
\<close>

definition orphan :: Bill where
  "orphan = \<lparr>Bill.ID = 2, Title = ''Orphan'', Bill.Amount = 50, Category = [], Currency = [],
     AmountBase = 50, PaidBy = 2, Participants = []\<rparr>"

definition candy :: Bill where
  "candy = \<lparr>Bill.ID = 3, Title = ''Candy'', Bill.Amount = 3 / 128, Category = [], Currency = [],
     AmountBase = 3 / 128, PaidBy = 1, Participants = [1, 2, 3]\<rparr>"

definition huge :: real where
  "huge = 2 ^ 1023"

definition villa :: Bill where
  "villa = \<lparr>Bill.ID = 4, Title = ''Villa'', Bill.Amount = huge, Category = [], Currency = [],
     AmountBase = huge, PaidBy = 1, Participants = [2]\<rparr>"

text \<open>The seeded cache and the bill of \<open>TestConvertBillsToBase_WithMock\<close>.\<close>

definition mockEntry :: rateEntry where
  "mockEntry = \<lparr>Rates = [''usd'' \<mapsto> 0.1], Date = ''2025-01-01'', FetchedAt = 1000\<rparr>"

definition mockWorld :: world where
  "mockWorld = \<lparr>rateCache = [''twd'' \<mapsto> mockEntry], fetched = []\<rparr>"

definition emptyWorld :: world where
  "emptyWorld = \<lparr>rateCache = Map.empty, fetched = []\<rparr>"

definition usSnack :: Bill where
  "usSnack = \<lparr>Bill.ID = 1, Title = ''US Snack'', Bill.Amount = 10, Category = [],
     Currency = ''USD'', AmountBase = 0, PaidBy = 0, Participants = []\<rparr>"

definition euSnack :: Bill where
  "euSnack = \<lparr>Bill.ID = 2, Title = ''EU Snack'', Bill.Amount = 10, Category = [],
     Currency = '' eur'', AmountBase = 0, PaidBy = 0, Participants = []\<rparr>"

definition ukSnack :: Bill where
  "ukSnack = \<lparr>Bill.ID = 3, Title = ''UK Snack'', Bill.Amount = 10, Category = [],
     Currency = ''GBP'', AmountBase = 0, PaidBy = 0, Participants = []\<rparr>"

text \<open>A network that is down, and one that answers.\<close>

definition offline :: "string \<Rightarrow> error + rateEntry" where
  "offline base = Inl (FetchError ''offline'')"

definition freshEntry :: rateEntry where
  "freshEntry = \<lparr>Rates = [''usd'' \<mapsto> 0.2, ''twd'' \<mapsto> 1], Date = ''2025-02-02'',
     FetchedAt = 4000000000000\<rparr>"

definition online :: "string \<Rightarrow> error + rateEntry" where
  "online base = Inr freshEntry"

text \<open>
  Decoders for a response with the base currency's object, for one without it, and for
  one whose base currency's object is \<open>null\<close>.
\<close>

definition goodJson :: decoder where
  "goodJson = \<lparr>unmarshalObject = (\<lambda>data. Inr [''date'' \<mapsto> ''D'', ''twd'' \<mapsto> ''R'']),
     unmarshalString = (\<lambda>v. Inr ''2025-12-06''),
     unmarshalRates = (\<lambda>v. Inr (Some [''usd'' \<mapsto> 0.03125, ''twd'' \<mapsto> 5]))\<rparr>"

definition otherJson :: decoder where
  "otherJson = \<lparr>unmarshalObject = (\<lambda>data. Inr [''date'' \<mapsto> ''D'', ''usd'' \<mapsto> ''R'']),
     unmarshalString = (\<lambda>v. Inr ''2025-12-06''),
     unmarshalRates = (\<lambda>v. Inr (Some [''twd'' \<mapsto> 32]))\<rparr>"

definition nullJson :: decoder where
  "nullJson = \<lparr>unmarshalObject = (\<lambda>data. Inr [''date'' \<mapsto> ''D'', ''twd'' \<mapsto> ''null'']),
     unmarshalString = (\<lambda>v. Inr ''2025-12-06''),
     unmarshalRates = (\<lambda>v. Inr None)\<rparr>"

section \<open>Rounding\<close>

lemma nearestEven_int: "nearestEven (of_int m) = m"
  by (simp add: nearestEven_def)



lemma ulp_pos: "0 < ulp x"
  by (simp add: ulp_def)



lemma two_powr_int: "0 \<le> k \<Longrightarrow> (2::real) powr (real_of_int k) = 2 ^ nat k"
  by (metis of_int_0_le_iff of_nat_nat powr_realpow zero_less_numeral of_int_of_nat_eq)




lemma ieeeRound_zero: "ieeeRound 0 = Finite 0"
  by (simp add: ieeeRound_def)






lemma ieeeRound_exact:
  assumes x: "x = of_int n * 2 powr (of_int z)"
    and n: "\<bar>n\<bar> < 2 ^ 53" and z: "- 1074 \<le> z" and m: "\<bar>x\<bar> \<le> maxFloat"
  shows "ieeeRound x = Finite x"
proof (cases "n = 0")
  case True
  then show ?thesis by (simp add: x ieeeRound_def)
next
  case False
  then have x0: "x \<noteq> 0" by (simp add: x)
  have n1: "1 \<le> \<bar>real_of_int n\<bar>"
    using False by (metis abs_ge_zero abs_zero int_one_le_iff_zero_less of_int_1_le_iff of_int_abs order_less_le zero_less_abs_iff)
  have "\<bar>real_of_int n\<bar> < 2 ^ 53"
    using n by (metis of_int_abs of_int_less_numeral_power_cancel_iff)
  then have "log 2 \<bar>real_of_int n\<bar> < 53"
    using n1 by (simp add: log_less_iff powr_realpow [symmetric])
  then have l: "\<lfloor>log 2 \<bar>real_of_int n\<bar>\<rfloor> \<le> 52"
    by (simp add: floor_le_iff)
  have "log 2 \<bar>x\<bar> = log 2 \<bar>real_of_int n\<bar> + real_of_int z"
    using n1 False by (simp add: x abs_mult log_mult)
  then have fl: "\<lfloor>log 2 \<bar>x\<bar>\<rfloor> = \<lfloor>log 2 \<bar>real_of_int n\<bar>\<rfloor> + z"
    by simp
  have e: "expo x - 52 \<le> z"
    unfolding expo_def fl using l z by linarith
  define d where "d = z - (expo x - 52)"
  have d: "0 \<le> d" using e by (simp add: d_def)
  have "x / ulp x = of_int n * 2 powr (real_of_int z - (real_of_int (expo x) - 52))"
    by (simp add: x ulp_def powr_diff)
  also have "real_of_int z - (real_of_int (expo x) - 52) = real_of_int d"
    by (simp add: d_def)
  also have "2 powr (real_of_int d) = 2 ^ nat d"
    using d by (rule two_powr_int)
  finally have q: "x / ulp x = of_int (n * 2 ^ nat d)"
    by simp
  have "of_int (nearestEven (x / ulp x)) * ulp x = x"
    unfolding q nearestEven_int using q ulp_pos [of x] by (simp add: field_simps)
  then show ?thesis
    using x0 m by (simp add: ieeeRound_def Let_def abs_le_iff)
qed

lemma ieeeRound_int: "\<bar>n\<bar> < 2 ^ 53 \<Longrightarrow> ieeeRound (of_int n) = Finite (of_int n)"
proof -
  assume a: "\<bar>n\<bar> < 2 ^ 53"
  then have "\<bar>real_of_int n\<bar> < 2 ^ 53"
    by (metis of_int_abs of_int_less_numeral_power_cancel_iff)
  moreover have "(2::real) ^ 53 \<le> maxFloat" by (simp add: maxFloat_def)
  ultimately have "\<bar>real_of_int n\<bar> \<le> maxFloat" by linarith
  then show ?thesis
    using ieeeRound_exact [of "of_int n" n 0] a by simp
qed







lemma ieeeRound_numeral:
  "numeral n < (2::int) ^ 53 \<Longrightarrow> ieeeRound (numeral n) = Finite (numeral n)"
  "numeral n < (2::int) ^ 53 \<Longrightarrow> ieeeRound (- numeral n) = Finite (- numeral n)"
  using ieeeRound_int [of "numeral n"] ieeeRound_int [of "- numeral n"] by simp_all

section \<open>The matching loop\<close>

lemma matchLoop_continue:
  "matchCond s \<Longrightarrow> matchLoop nameMap s = matchLoop nameMap (matchStep nameMap s)"
  by (subst matchLoop.simps) simp

lemma matchLoop_stop: "\<not> matchCond s \<Longrightarrow> matchLoop nameMap s = Some s"
  by (subst matchLoop.simps) simp









text \<open>What a subtraction leaves.\<close>

lemma fsub_Finite: "fsub (Finite x) (Finite y) = ieeeRound (x - y)"
  by (simp add: fsub_def)



















section \<open>The balances and the partition\<close>










lemma calculate_matchStart:
  "calculate order people bills =
     map_option settlements (matchLoop (names people) (matchStart order people bills))"
  by (simp add: calculate_def matchStart_def balances64_def names_def Let_def split_beta)










section \<open>What the moves transfer to each party\<close>










section \<open>The scenarios evaluated\<close>





lemmas scenario_defs = alice_def bob_def charlie_def lunch_def orphan_def candy_def villa_def

lemma lunch_balances64:
  "balances64 [alice, bob, charlie] [lunch] =
     [1 \<mapsto> Finite 200, 2 \<mapsto> Finite (- 100), 3 \<mapsto> Finite (- 100)]"
  by (rule ext)
     (simp add: balances64_def scenario_defs applyBill64_def balanceAt64_def Let_def
        fsub_Finite ieeeRound_numeral ieeeRound_zero)



lemma scenario_names:
  "names [alice, bob, charlie] = [1 \<mapsto> ''Alice'', 2 \<mapsto> ''Bob'', 3 \<mapsto> ''Charlie'']"
  "names [alice, bob] = [1 \<mapsto> ''Alice'', 2 \<mapsto> ''Bob'']"
  by (simp_all add: names_def scenario_defs)

lemma lunch_matchStart:
  "matchStart [1, 2, 3] [alice, bob, charlie] [lunch] =
     \<lparr>creditors = [(1, Finite 200)], debtors = [(2, Finite 100), (3, Finite 100)],
      i = 0, j = 0, settlements = [], moves = []\<rparr>"
  by (simp add: matchStart_def lunch_balances64 cent_def)



lemma lunch_run:
  "matchLoop (names [alice, bob, charlie]) (matchStart [1, 2, 3] [alice, bob, charlie] [lunch]) =
     Some \<lparr>creditors = [(1, Finite 0)], debtors = [(2, Finite 0), (3, Finite 0)],
       i = 1, j = 2,
       settlements = [\<lparr>From = ''Bob'', To = ''Alice'', Amount = Finite 100\<rparr>,
                      \<lparr>From = ''Charlie'', To = ''Alice'', Amount = Finite 100\<rparr>],
       moves = [(2, 1, Finite 100), (3, 1, Finite 100)]\<rparr>"
proof -
  let ?nm = "names [alice, bob, charlie]"
  let ?s0 = "\<lparr>creditors = [(1, Finite 200)], debtors = [(2, Finite 100), (3, Finite 100)],
      i = 0, j = 0, settlements = [], moves = []\<rparr>"
  let ?s1 = "\<lparr>creditors = [(1, Finite 100)], debtors = [(2, Finite 0), (3, Finite 100)],
      i = 0, j = 1, settlements = [\<lparr>From = ''Bob'', To = ''Alice'', Amount = Finite 100\<rparr>],
      moves = [(2, 1, Finite 100)]\<rparr>"
  let ?s2 = "\<lparr>creditors = [(1, Finite 0)], debtors = [(2, Finite 0), (3, Finite 0)],
       i = 1, j = 2,
       settlements = [\<lparr>From = ''Bob'', To = ''Alice'', Amount = Finite 100\<rparr>,
                      \<lparr>From = ''Charlie'', To = ''Alice'', Amount = Finite 100\<rparr>],
       moves = [(2, 1, Finite 100), (3, 1, Finite 100)]\<rparr>"
  have c0: "matchCond ?s0" and c1: "matchCond ?s1" and c2: "\<not> matchCond ?s2"
    by (simp_all add: matchCond_def)
  have e1: "matchStep ?nm ?s0 = ?s1"
    by (simp add: matchStep_def Let_def scenario_names nameAt_def fsub_Finite
        ieeeRound_numeral ieeeRound_zero cent_def)
  have e2: "matchStep ?nm ?s1 = ?s2"
    by (simp add: matchStep_def Let_def scenario_names nameAt_def fsub_Finite
        ieeeRound_numeral ieeeRound_zero cent_def)
  have "matchLoop ?nm ?s0 = matchLoop ?nm ?s1"
    using matchLoop_continue [OF c0, of ?nm] by (simp only: e1)
  also have "\<dots> = matchLoop ?nm ?s2"
    using matchLoop_continue [OF c1, of ?nm] by (simp only: e2)
  also have "\<dots> = Some ?s2"
    by (rule matchLoop_stop [OF c2])
  finally show ?thesis
    by (simp only: lunch_matchStart)
qed

lemma lunch_plan:
  "calculate [1, 2, 3] [alice, bob, charlie] [lunch] =
     Some [\<lparr>From = ''Bob'', To = ''Alice'', Amount = Finite 100\<rparr>,
           \<lparr>From = ''Charlie'', To = ''Alice'', Amount = Finite 100\<rparr>]"
  by (simp add: calculate_matchStart lunch_run)





section \<open>The settlement plan\<close>

lemma applyBills64_append:
  "applyBills64 balance (xs @ ys) = applyBills64 (applyBills64 balance xs) ys"
  by (induction xs arbitrary: balance) simp_all

lemma applyBills_append:
  "applyBills balance (xs @ ys) = applyBills (applyBills balance xs) ys"
  by (induction xs arbitrary: balance) simp_all




text \<open>
  Claim C2. A bill whose participant list is empty leaves every balance as it is: it
  debits nobody and does not credit its payer, so the balances and the settlements of a
  calculation (whether it returns or not) are the same with and without it. The same
  holds of the balances in exact arithmetic.
\<close>

theorem empty_participants_no_effect:
  assumes "Participants bill = []"
  shows "applyBill64 balance bill = balance
       \<and> balances64 people (before @ bill # after) = balances64 people (before @ after)
       \<and> calculate order people (before @ bill # after) = calculate order people (before @ after)
       \<and> applyBill exact bill = exact
       \<and> balances people (before @ bill # after) = balances people (before @ after)"
proof -
  have a: "applyBill64 b bill = b" for b
    using assms by (simp add: applyBill64_def)
  have b: "balances64 people (before @ bill # after) = balances64 people (before @ after)"
    by (simp add: balances64_def applyBills64_append a)
  have c: "applyBill e bill = e" for e
    using assms by (simp add: applyBill_def)
  have d: "balances people (before @ bill # after) = balances people (before @ after)"
    by (simp add: balances_def applyBills_append c)
  have "matchStart order people (before @ bill # after) = matchStart order people (before @ after)"
    by (simp add: matchStart_def b)
  then have "calculate order people (before @ bill # after) =
      calculate order people (before @ after)"
    by (simp add: calculate_matchStart)
  then show ?thesis
    using a b c d by simp
qed

theorem empty_participants_no_effect_witness:
  "Participants orphan = []
   \<and> applyBill64 [2 \<mapsto> Finite 7] orphan = [2 \<mapsto> Finite 7]
   \<and> balances64 [alice, bob, charlie] ([] @ orphan # [lunch]) =
       [1 \<mapsto> Finite 200, 2 \<mapsto> Finite (- 100), 3 \<mapsto> Finite (- 100)]
   \<and> calculate [1, 2, 3] [alice, bob, charlie] ([] @ orphan # [lunch]) =
       Some [\<lparr>From = ''Bob'', To = ''Alice'', Amount = Finite 100\<rparr>,
             \<lparr>From = ''Charlie'', To = ''Alice'', Amount = Finite 100\<rparr>]
   \<and> applyBill [2 \<mapsto> 7] orphan = [2 \<mapsto> 7]
   \<and> balances [alice, bob, charlie] ([] @ orphan # [lunch]) =
       balances [alice, bob, charlie] [lunch]"
proof -
  have h: "Participants orphan = []"
    by (simp add: orphan_def)
  show ?thesis
    using h lunch_plan lunch_balances64
      empty_participants_no_effect [OF h, of "[2 \<mapsto> Finite 7]" "[alice, bob, charlie]" "[]"
        "[lunch]" "[1, 2, 3]" "[2 \<mapsto> 7]"]
    by simp
qed










section \<open>The balances in exact arithmetic add up to zero\<close>

lemma total_credit:
  assumes "finite (dom balance)"
  shows "total (balance(k \<mapsto> balanceAt balance k + x)) = total balance + x"
proof (cases "k \<in> dom balance")
  case True
  then have d: "dom (balance(k \<mapsto> balanceAt balance k + x)) = dom balance"
    by auto
  have e1: "total (balance(k \<mapsto> balanceAt balance k + x))
      = (\<Sum>q \<in> dom balance. if q = k then balanceAt balance k + x else balanceAt balance q)"
    unfolding total_def d by (rule sum.cong) (auto simp: balanceAt_def)
  have e2: "(\<Sum>q \<in> dom balance. if q = k then balanceAt balance k + x else balanceAt balance q)
      = (balanceAt balance k + x) + (\<Sum>q \<in> dom balance - {k}. balanceAt balance q)"
    using assms True by (simp add: sum.remove [of _ k])
  have e3: "total balance = balanceAt balance k + (\<Sum>q \<in> dom balance - {k}. balanceAt balance q)"
    unfolding total_def using assms True by (simp add: sum.remove [of _ k])
  show ?thesis
    using e1 e2 e3 by simp
next
  case False
  then have z: "balanceAt balance k = 0"
    by (simp add: balanceAt_def domIff)
  have e1: "total (balance(k \<mapsto> x))
      = (\<Sum>q \<in> insert k (dom balance). if q = k then x else balanceAt balance q)"
    unfolding total_def by (rule sum.cong) (auto simp: balanceAt_def)
  have e2: "(\<Sum>q \<in> insert k (dom balance). if q = k then x else balanceAt balance q)
      = x + (\<Sum>q \<in> dom balance. if q = k then x else balanceAt balance q)"
    using assms False by simp
  have e3: "(\<Sum>q \<in> dom balance. if q = k then x else balanceAt balance q) = total balance"
    unfolding total_def using False by (intro sum.cong) auto
  show ?thesis
    unfolding z using e1 e2 e3 by simp
qed

lemma dom_debitParticipants:
  "dom (debitParticipants balance p ps) = dom balance \<union> set ps"
  by (induction ps arbitrary: balance) auto

lemma total_debitParticipants:
  "finite (dom balance) \<Longrightarrow>
   total (debitParticipants balance p ps) = total balance - p * real (length ps)"
proof (induction ps arbitrary: balance)
  case Nil
  then show ?case by simp
next
  case (Cons q ps)
  have step: "total (balance(q \<mapsto> balanceAt balance q - p)) = total balance - p"
    using total_credit [OF Cons.prems, of q "- p"] by simp
  have fin: "finite (dom (balance(q \<mapsto> balanceAt balance q - p)))"
    using Cons.prems by simp
  have "total (debitParticipants (balance(q \<mapsto> balanceAt balance q - p)) p ps)
      = total (balance(q \<mapsto> balanceAt balance q - p)) - p * real (length ps)"
    by (rule Cons.IH [OF fin])
  then show ?case
    using step by (simp add: algebra_simps)
qed

lemma dom_applyBill: "dom (applyBill balance bill) = dom balance \<union> billIds bill"
  by (simp add: applyBill_def billIds_def Let_def dom_debitParticipants)

lemma total_applyBill:
  assumes "finite (dom balance)"
  shows "total (applyBill balance bill) = total balance"
proof (cases "Participants bill = []")
  case True
  then show ?thesis by (simp add: applyBill_def)
next
  case False
  define amount where "amount = (if AmountBase bill = 0 then Bill.Amount bill else AmountBase bill)"
  have fin: "finite (dom (balance(PaidBy bill \<mapsto> balanceAt balance (PaidBy bill) + amount)))"
    using assms by simp
  have n: "real (length (Participants bill)) \<noteq> 0"
    using False by simp
  show ?thesis
    using False n total_debitParticipants [OF fin]
      total_credit [OF assms, of "PaidBy bill" amount]
    by (simp add: applyBill_def Let_def amount_def)
qed

lemma dom_applyBills:
  "dom (applyBills balance bills) = dom balance \<union> (\<Union>bill \<in> set bills. billIds bill)"
  by (induction bills arbitrary: balance) (auto simp: dom_applyBill)

lemma finite_billIds: "finite (billIds bill)"
  by (simp add: billIds_def)

lemma total_applyBills:
  "finite (dom balance) \<Longrightarrow> total (applyBills balance bills) = total balance"
proof (induction bills arbitrary: balance)
  case Nil
  then show ?case by simp
next
  case (Cons bill bills)
  have fin: "finite (dom (applyBill balance bill))"
    using Cons.prems by (simp add: dom_applyBill finite_billIds)
  have "total (applyBills (applyBill balance bill) bills) = total (applyBill balance bill)"
    by (rule Cons.IH [OF fin])
  then show ?case
    using Cons.prems by (simp add: total_applyBill)
qed

lemma dom_initMaps:
  "dom (fst (initMaps (balance, nameMap) people)) = dom balance \<union> Person.ID ` set people"
  by (induction people arbitrary: balance nameMap) auto

lemma initMaps_zero:
  "(\<forall>k v. balance k = Some v \<longrightarrow> v = 0) \<Longrightarrow>
   fst (initMaps (balance, nameMap) people) k = Some v \<Longrightarrow> v = 0"
proof (induction people arbitrary: balance nameMap)
  case Nil
  then show ?case by simp
next
  case (Cons p people)
  have p1: "\<forall>k v. (balance(Person.ID p \<mapsto> 0)) k = Some v \<longrightarrow> v = 0"
    using Cons.prems(1) by simp
  have p2: "fst (initMaps (balance(Person.ID p \<mapsto> 0), nameMap(Person.ID p \<mapsto> Name p)) people) k
      = Some v"
    using Cons.prems(2) by simp
  show ?case
    by (rule Cons.IH [OF p1 p2])
qed

lemma dom_balances: "dom (balances people bills) = affected people bills"
  by (simp add: balances_def affected_def dom_applyBills dom_initMaps)

lemma lunch_balances:
  "balances [alice, bob, charlie] [lunch] = [1 \<mapsto> 200, 2 \<mapsto> - 100, 3 \<mapsto> - 100]"
  by (rule ext) (simp add: balances_def scenario_defs applyBill_def balanceAt_def Let_def)

text \<open>
  Claim C4. After the bills are processed, the balances of all affected identifiers (the
  people, and the payers and participants of the bills that have a participant) add up
  to zero in exact arithmetic.
\<close>

theorem balances_sum_zero:
  "dom (balances people bills) = affected people bills \<and>
   (\<Sum>k \<in> affected people bills. balanceAt (balances people bills) k) = 0"
proof -
  let ?b0 = "fst (initMaps (Map.empty, Map.empty) people)"
  have fin: "finite (dom ?b0)"
    by (simp add: dom_initMaps)
  have "balanceAt ?b0 k = 0" for k
    using initMaps_zero [of Map.empty Map.empty people k]
    by (cases "?b0 k") (simp_all add: balanceAt_def)
  then have "total ?b0 = 0"
    unfolding total_def by simp
  then have "total (balances people bills) = 0"
    using total_applyBills [OF fin, of bills] by (simp add: balances_def)
  then show ?thesis
    by (simp add: total_def dom_balances)
qed

theorem balances_sum_zero_witness:
  "affected [alice, bob, charlie] [lunch] = {1, 2, 3} \<and>
   balanceAt (balances [alice, bob, charlie] [lunch]) 1 = 200 \<and>
   balanceAt (balances [alice, bob, charlie] [lunch]) 2 = - 100 \<and>
   balanceAt (balances [alice, bob, charlie] [lunch]) 3 = - 100 \<and>
   (\<Sum>k \<in> {1, 2, 3}. balanceAt (balances [alice, bob, charlie] [lunch]) k) = 0"
proof -
  have a: "affected [alice, bob, charlie] [lunch] = {1, 2, 3}"
    by (auto simp: affected_def billIds_def scenario_defs)
  show ?thesis
    using balances_sum_zero [of "[alice, bob, charlie]" "[lunch]"]
    by (simp add: a lunch_balances balanceAt_def)
qed

section \<open>Currency conversion\<close>

lemma convertLoop_step_ok:
  "\<not> missingRate lib baseLower rates b \<Longrightarrow>
   convertLoop lib base baseLower rates converted (b # bills) =
   convertLoop lib base baseLower rates
     (converted @ [b\<lparr>AmountBase := baseAmount lib baseLower rates b\<rparr>]) bills"
  by (auto simp: missingRate_def baseAmount_def rateAt_def Let_def split: option.splits)

lemma convertLoop_step_fail:
  "missingRate lib baseLower rates b \<Longrightarrow>
   convertLoop lib base baseLower rates converted (b # bills) =
   ([], Date rates,
    Some (MissingRate (ToUpper lib (billCurrency lib baseLower b)) (ToUpper lib base)))"
  by (auto simp: missingRate_def rateAt_def Let_def split: option.splits)

lemma convertLoop_ok:
  "\<forall>b \<in> set bills. \<not> missingRate lib baseLower rates b \<Longrightarrow>
   convertLoop lib base baseLower rates converted bills =
   (converted @ map (\<lambda>b. b\<lparr>AmountBase := baseAmount lib baseLower rates b\<rparr>) bills,
    Date rates, None)"
proof (induction bills arbitrary: converted)
  case Nil
  then show ?case by simp
next
  case (Cons b bills)
  then show ?case
    by (simp add: convertLoop_step_ok del: convertLoop.simps)
qed

lemma convertLoop_fail:
  "find (missingRate lib baseLower rates) bills = Some b \<Longrightarrow>
   convertLoop lib base baseLower rates converted bills =
   ([], Date rates,
    Some (MissingRate (ToUpper lib (billCurrency lib baseLower b)) (ToUpper lib base)))"
proof (induction bills arbitrary: converted)
  case Nil
  then show ?case by simp
next
  case (Cons c bills)
  show ?case
  proof (cases "missingRate lib baseLower rates c")
    case True
    then show ?thesis
      using Cons.prems by (simp add: convertLoop_step_fail del: convertLoop.simps)
  next
    case False
    then show ?thesis
      using Cons by (simp add: convertLoop_step_ok del: convertLoop.simps)
  qed
qed

lemma convertLoop_success:
  assumes "convertLoop lib base baseLower rates acc bills = (converted, date, None)"
  shows "converted = acc @ map (\<lambda>b. b\<lparr>AmountBase := baseAmount lib baseLower rates b\<rparr>) bills"
proof -
  have "find (missingRate lib baseLower rates) bills = None"
  proof (cases "find (missingRate lib baseLower rates) bills")
    case None
    then show ?thesis .
  next
    case (Some b)
    then show ?thesis
      using assms convertLoop_fail [OF Some, of base acc] by simp
  qed
  then have ok: "\<forall>b \<in> set bills. \<not> missingRate lib baseLower rates b"
    by (simp add: find_None_iff)
  show ?thesis
    using assms convertLoop_ok [OF ok, of base acc] by simp
qed

lemma convertBillsToBase_rates:
  assumes "getRates fetch now w (ToLower lib base) = ((rates, None), w1)"
  shows "convertBillsToBase lib fetch now w base bills =
         (convertLoop lib base (ToLower lib base) rates [] bills, w1)"
  using assms by (simp add: convertBillsToBase_def Let_def)

lemma convertBillsToBase_success:
  assumes "convertBillsToBase lib fetch now w base bills = ((converted, date, None), w2)"
  shows "\<exists>rates w1. getRates fetch now w (ToLower lib base) = ((rates, None), w1) \<and>
           convertLoop lib base (ToLower lib base) rates [] bills = (converted, date, None)"
proof -
  obtain rates err w1 where g: "getRates fetch now w (ToLower lib base) = ((rates, err), w1)"
    by (metis surj_pair)
  show ?thesis
  proof (cases err)
    case None
    then show ?thesis
      using assms g by (simp add: convertBillsToBase_def Let_def)
  next
    case (Some e)
    then show ?thesis
      using assms g by (simp add: convertBillsToBase_def Let_def)
  qed
qed

lemmas string_eval =
  asciiStrings_def toLowerChar_def toUpperChar_def upperLetters_def lowerLetters_def isSpace_def

lemma lower_TWD: "ToLower asciiStrings ''TWD'' = ''twd''"
  by (simp add: string_eval)

lemma mock_getRates: "getRates offline 1000 mockWorld ''twd'' = ((mockEntry, None), mockWorld)"
  by (simp add: getRates_def mockWorld_def mockEntry_def Sub_def rateCacheTTL_def)

lemma usSnack_currency: "billCurrency asciiStrings ''twd'' usSnack = ''usd''"
  by (simp add: billCurrency_def usSnack_def string_eval)

lemma euSnack_currency: "billCurrency asciiStrings ''twd'' euSnack = ''eur''"
  by (simp add: billCurrency_def euSnack_def string_eval)

lemma ukSnack_currency: "billCurrency asciiStrings ''twd'' ukSnack = ''gbp''"
  by (simp add: billCurrency_def ukSnack_def string_eval)

lemma snack_rates:
  "\<not> missingRate asciiStrings ''twd'' mockEntry usSnack"
  "missingRate asciiStrings ''twd'' mockEntry euSnack"
  "missingRate asciiStrings ''twd'' mockEntry ukSnack"
  by (simp_all add: missingRate_def usSnack_currency euSnack_currency ukSnack_currency
      mockEntry_def)

lemma mock_convert:
  "convertBillsToBase asciiStrings offline 1000 mockWorld ''TWD'' [usSnack] =
     (([usSnack\<lparr>AmountBase := 100\<rparr>], ''2025-01-01'', None), mockWorld)"
  by (simp add: convertBillsToBase_def lower_TWD mock_getRates usSnack_currency Let_def)
     (simp add: mockEntry_def usSnack_def)

lemma mock_convert_fail:
  "convertBillsToBase asciiStrings offline 1000 mockWorld ''TWD'' [euSnack, ukSnack] =
     (([], ''2025-01-01'', Some (MissingRate ''EUR'' ''TWD'')), mockWorld)"
  by (simp add: convertBillsToBase_def lower_TWD mock_getRates euSnack_currency Let_def)
     (simp add: mockEntry_def string_eval)



text \<open>
  Claim C10. When \<open>convertBillsToBase\<close> succeeds, the list it returns has the length
  and the order of the input, and each bill is the input bill in every field (ID, Title,
  Amount, Category, Currency, PaidBy, Participants) except \<open>AmountBase\<close>.
\<close>

theorem convert_frame:
  assumes "convertBillsToBase lib fetch now w base bills = ((converted, date, None), w2)"
  shows "length converted = length bills \<and>
     (\<forall>k < length bills.
        Bill.ID (converted ! k) = Bill.ID (bills ! k) \<and>
        Title (converted ! k) = Title (bills ! k) \<and>
        Bill.Amount (converted ! k) = Bill.Amount (bills ! k) \<and>
        Category (converted ! k) = Category (bills ! k) \<and>
        Currency (converted ! k) = Currency (bills ! k) \<and>
        PaidBy (converted ! k) = PaidBy (bills ! k) \<and>
        Participants (converted ! k) = Participants (bills ! k) \<and>
        converted ! k = (bills ! k)\<lparr>AmountBase := AmountBase (converted ! k)\<rparr>)"
proof -
  obtain rates w1 where
    "convertLoop lib base (ToLower lib base) rates [] bills = (converted, date, None)"
    using convertBillsToBase_success [OF assms] by blast
  then have c: "converted =
      map (\<lambda>b. b\<lparr>AmountBase := baseAmount lib (ToLower lib base) rates b\<rparr>) bills"
    using convertLoop_success [of lib base "ToLower lib base" rates "[]" bills converted date]
    by simp
  show ?thesis
    unfolding c by simp
qed

theorem convert_frame_witness:
  "convertBillsToBase asciiStrings offline 1000 mockWorld ''TWD'' [usSnack] =
       (([usSnack\<lparr>AmountBase := 100\<rparr>], ''2025-01-01'', None), mockWorld)
   \<and> length [usSnack\<lparr>AmountBase := 100\<rparr>] = length [usSnack]
   \<and> Title (hd [usSnack\<lparr>AmountBase := 100\<rparr>]) = ''US Snack''
   \<and> Currency (hd [usSnack\<lparr>AmountBase := 100\<rparr>]) = ''USD''
   \<and> Bill.Amount (hd [usSnack\<lparr>AmountBase := 100\<rparr>]) = 10"
  using convert_frame [OF mock_convert] mock_convert
  by (simp add: usSnack_def)

text \<open>
  Claim C5, as stated: when the list contains a bill whose resolved currency is not the
  base and has no usable rate, the error names the currency of that bill. The loop stops
  at the first such bill, so the error names the currency of the first one only. Under
  base TWD with the rate table \<open>{usd: 0.1}\<close>, the list of a bill in EUR and a bill in
  GBP contains the bill in GBP, whose rate is missing, and the error names EUR.
\<close>

theorem convert_missing_rate_counterexample:
  "getRates offline 1000 mockWorld (ToLower asciiStrings ''TWD'') = ((mockEntry, None), mockWorld)
   \<and> ukSnack \<in> set [euSnack, ukSnack]
   \<and> missingRate asciiStrings (ToLower asciiStrings ''TWD'') mockEntry ukSnack
   \<and> billCurrency asciiStrings (ToLower asciiStrings ''TWD'') ukSnack = ''gbp''
   \<and> ToUpper asciiStrings ''gbp'' = ''GBP''
   \<and> convertBillsToBase asciiStrings offline 1000 mockWorld ''TWD'' [euSnack, ukSnack] =
       (([], ''2025-01-01'', Some (MissingRate ''EUR'' ''TWD'')), mockWorld)
   \<and> MissingRate ''EUR'' ''TWD'' \<noteq> MissingRate ''GBP'' ''TWD''"
proof -
  have "ToUpper asciiStrings ''gbp'' = ''GBP''"
    by (simp add: string_eval)
  then show ?thesis
    by (simp add: lower_TWD mock_getRates snack_rates ukSnack_currency mock_convert_fail)
qed

text \<open>
  Claim C5, amended. When a bill of the list resolves to a currency that is not the base
  and that the rate table lacks or maps to zero, \<open>convertBillsToBase\<close> fails with the
  error that names the (upper-cased) currency of the first such bill of the list, returns
  no converted bill, and still returns the date of the rate table.
\<close>

theorem convert_missing_rate:
  assumes "getRates fetch now w (ToLower lib base) = ((rates, None), w1)"
      and "bill \<in> set bills"
      and "missingRate lib (ToLower lib base) rates bill"
  shows "\<exists>first. find (missingRate lib (ToLower lib base) rates) bills = Some first \<and>
           first \<in> set bills \<and> missingRate lib (ToLower lib base) rates first \<and>
           convertBillsToBase lib fetch now w base bills =
             (([], Date rates,
               Some (MissingRate (ToUpper lib (billCurrency lib (ToLower lib base) first))
                 (ToUpper lib base))), w1)"
proof -
  obtain first where f: "find (missingRate lib (ToLower lib base) rates) bills = Some first"
    using assms(2,3) by (cases "find (missingRate lib (ToLower lib base) rates) bills")
      (auto simp: find_None_iff)
  then have m: "first \<in> set bills" "missingRate lib (ToLower lib base) rates first"
    by (auto simp: find_Some_iff)
  show ?thesis
    using f m convertLoop_fail [OF f, of base "[]"] assms(1)
    by (simp add: convertBillsToBase_rates)
qed

theorem convert_missing_rate_witness:
  "getRates offline 1000 mockWorld (ToLower asciiStrings ''TWD'') = ((mockEntry, None), mockWorld)
   \<and> euSnack \<in> set [usSnack, euSnack]
   \<and> missingRate asciiStrings (ToLower asciiStrings ''TWD'') mockEntry euSnack
   \<and> find (missingRate asciiStrings (ToLower asciiStrings ''TWD'') mockEntry) [usSnack, euSnack] =
       Some euSnack
   \<and> convertBillsToBase asciiStrings offline 1000 mockWorld ''TWD'' [usSnack, euSnack] =
       (([], ''2025-01-01'', Some (MissingRate ''EUR'' ''TWD'')), mockWorld)"
proof -
  have g: "getRates offline 1000 mockWorld (ToLower asciiStrings ''TWD'') =
      ((mockEntry, None), mockWorld)"
    by (simp add: lower_TWD mock_getRates)
  have m: "euSnack \<in> set [usSnack, euSnack]"
    by simp
  have e: "missingRate asciiStrings (ToLower asciiStrings ''TWD'') mockEntry euSnack"
    by (simp add: lower_TWD snack_rates)
  have u: "\<not> missingRate asciiStrings (ToLower asciiStrings ''TWD'') mockEntry usSnack"
    by (simp add: lower_TWD snack_rates)
  have f: "find (missingRate asciiStrings (ToLower asciiStrings ''TWD'') mockEntry)
      [usSnack, euSnack] = Some euSnack"
    using e u by simp
  show ?thesis
    using convert_missing_rate [OF g m e] g m e f
    by (simp add: lower_TWD euSnack_currency) (simp add: string_eval mockEntry_def)
qed

section \<open>The cache policy and the parser\<close>

text \<open>
  Claim C6. \<open>getRates\<close> follows the three-step policy. An entry of the cache fresher
  than the TTL of 30 minutes is returned as it is, with no fetch and the cache
  untouched. With a stale entry a fetch is made: on success the entry is replaced and
  the fresh data returned, on failure the stale entry is returned without an error.
  With no entry a fetch is made: on success the entry is stored and returned, on failure
  the error is returned.
\<close>

theorem getRates_policy:
  "rateCacheTTL = 30 * 60 * 1000000000
   \<and> (\<forall>entry. rateCache w base = Some entry \<and> Sub now (FetchedAt entry) < rateCacheTTL \<longrightarrow>
         getRates fetch now w base = ((entry, None), w))
   \<and> (\<forall>entry. rateCache w base = Some entry \<and> \<not> Sub now (FetchedAt entry) < rateCacheTTL \<longrightarrow>
         (\<forall>fresh. fetch base = Inr fresh \<longrightarrow>
            getRates fetch now w base =
              ((fresh, None),
               w\<lparr>fetched := fetched w @ [base], rateCache := (rateCache w)(base \<mapsto> fresh)\<rparr>))
       \<and> (\<forall>err. fetch base = Inl err \<longrightarrow>
            getRates fetch now w base = ((entry, None), w\<lparr>fetched := fetched w @ [base]\<rparr>)))
   \<and> (rateCache w base = None \<longrightarrow>
         (\<forall>fresh. fetch base = Inr fresh \<longrightarrow>
            getRates fetch now w base =
              ((fresh, None),
               w\<lparr>fetched := fetched w @ [base], rateCache := (rateCache w)(base \<mapsto> fresh)\<rparr>))
       \<and> (\<forall>err. fetch base = Inl err \<longrightarrow>
            getRates fetch now w base =
              ((zeroEntry, Some err), w\<lparr>fetched := fetched w @ [base]\<rparr>)))"
  by (simp add: getRates_def Let_def rateCacheTTL_def)

theorem getRates_policy_witness:
  "getRates offline 1000 mockWorld ''twd'' = ((mockEntry, None), mockWorld)
   \<and> getRates online 4000000000000 mockWorld ''twd'' =
       ((freshEntry, None), \<lparr>rateCache = [''twd'' \<mapsto> freshEntry], fetched = [''twd'']\<rparr>)
   \<and> getRates offline 4000000000000 mockWorld ''twd'' =
       ((mockEntry, None), \<lparr>rateCache = [''twd'' \<mapsto> mockEntry], fetched = [''twd'']\<rparr>)
   \<and> getRates online 1000 emptyWorld ''twd'' =
       ((freshEntry, None), \<lparr>rateCache = [''twd'' \<mapsto> freshEntry], fetched = [''twd'']\<rparr>)
   \<and> getRates offline 1000 emptyWorld ''twd'' =
       ((zeroEntry, Some (FetchError ''offline'')), \<lparr>rateCache = Map.empty, fetched = [''twd'']\<rparr>)"
proof -
  have c: "rateCache mockWorld ''twd'' = Some mockEntry" "rateCache emptyWorld ''twd'' = None"
    by (simp_all add: mockWorld_def emptyWorld_def)
  have t: "Sub 1000 (FetchedAt mockEntry) < rateCacheTTL"
    "\<not> Sub 4000000000000 (FetchedAt mockEntry) < rateCacheTTL"
    by (simp_all add: Sub_def mockEntry_def rateCacheTTL_def)
  have f: "online ''twd'' = Inr freshEntry" "offline ''twd'' = Inl (FetchError ''offline'')"
    by (simp_all add: online_def offline_def)
  show ?thesis
    using c t f
      getRates_policy [of mockWorld "''twd''" 1000 offline]
      getRates_policy [of mockWorld "''twd''" 4000000000000 online]
      getRates_policy [of mockWorld "''twd''" 4000000000000 offline]
      getRates_policy [of emptyWorld "''twd''" 1000 online]
      getRates_policy [of emptyWorld "''twd''" 1000 offline]
    by (simp add: mockWorld_def emptyWorld_def)
qed

text \<open>
  Claim C8. A rate table that \<open>parseRateResponse\<close> returns without an error maps the
  lower-cased base currency to exactly 1, whatever the response held for it; and
  \<open>parseRateResponse\<close> returns an error (and the zero entry) when the decoded JSON
  object has no key for the lower-cased base currency.
\<close>

theorem parseRateResponse_base_rate:
  "(\<forall>entry. parseRateResponse lib js base data = Returned (entry, None) \<longrightarrow>
      Rates entry (ToLower lib base) = Some 1)
   \<and> (\<forall>raw. unmarshalObject js data = Inr raw \<and> raw (ToLower lib base) = None \<longrightarrow>
         (\<exists>err. parseRateResponse lib js base data = Returned (zeroEntry, Some err)))"
  by (auto simp: parseRateResponse_def Let_def split: sum.splits option.splits)

theorem parseRateResponse_base_rate_witness:
  "parseRateResponse asciiStrings goodJson ''TWD'' ''{}'' =
     Returned (\<lparr>Rates = [''usd'' \<mapsto> 0.03125, ''twd'' \<mapsto> 1], Date = ''2025-12-06'',
                FetchedAt = 0\<rparr>, None)
   \<and> [''usd'' \<mapsto> 0.03125, ''twd'' \<mapsto> 1] (ToLower asciiStrings ''TWD'') = Some (1::real)
   \<and> unmarshalObject otherJson ''{}'' = Inr [''date'' \<mapsto> ''D'', ''usd'' \<mapsto> ''R'']
   \<and> [''date'' \<mapsto> ''D'', ''usd'' \<mapsto> ''R''] (ToLower asciiStrings ''TWD'') = None
   \<and> parseRateResponse asciiStrings otherJson ''TWD'' ''{}'' =
       Returned (zeroEntry, Some MissingBaseRates)
   \<and> parseRateResponse asciiStrings nullJson ''TWD'' ''{}'' = Panicked"
proof -
  have a: "parseRateResponse asciiStrings goodJson ''TWD'' ''{}'' =
     Returned (\<lparr>Rates = [''usd'' \<mapsto> 0.03125, ''twd'' \<mapsto> 1], Date = ''2025-12-06'',
                FetchedAt = 0\<rparr>, None)"
    by (simp add: parseRateResponse_def goodJson_def Let_def lower_TWD)
  have b: "unmarshalObject otherJson ''{}'' = Inr [''date'' \<mapsto> ''D'', ''usd'' \<mapsto> ''R'']"
    "[''date'' \<mapsto> ''D'', ''usd'' \<mapsto> ''R''] (ToLower asciiStrings ''TWD'') = None"
    by (simp_all add: otherJson_def lower_TWD)
  have c: "parseRateResponse asciiStrings otherJson ''TWD'' ''{}'' =
       Returned (zeroEntry, Some MissingBaseRates)"
    "parseRateResponse asciiStrings nullJson ''TWD'' ''{}'' = Panicked"
    by (simp_all add: parseRateResponse_def otherJson_def nullJson_def Let_def lower_TWD)
  show ?thesis
    using a b c parseRateResponse_base_rate [of asciiStrings goodJson "''TWD''" "''{}''"]
      parseRateResponse_base_rate [of asciiStrings otherJson "''TWD''" "''{}''"]
    by simp
qed

end
